theory Spec2Isabelle
  imports Main
begin

section \<open>Telemetry dashboards: acquisition, parsing and bounded history\<close>

text \<open>
  Three programs are embedded: the motion dashboard (\<^verbatim>\<open>esp32-mpu6050.py\<close>), the ranging
  dashboard (\<^verbatim>\<open>obstacle_visualizer.py\<close>) and the packet analyzer
  (\<^verbatim>\<open>claude-packetanalyzer.py\<close>). Widgets, plots and files are outside the embedding;
  what a routine prints or schedules is returned as a list of events next to the new state.
\<close>

subsection \<open>Python exceptions and string operations\<close>

datatype py_error = ValueError | IndexError | IOError

text \<open>\<^verbatim>\<open>line.startswith(p)\<close>.\<close>

definition startswith :: "string \<Rightarrow> string \<Rightarrow> bool" where
  "startswith p s = (take (length p) s = p)"

text \<open>
  \<^verbatim>\<open>s.split(',')\<close> with an explicit separator: every occurrence of the separator ends a
  field, so the result has one field more than there are separators and the empty string
  gives one empty field.
\<close>

fun split_acc :: "char \<Rightarrow> string \<Rightarrow> string \<Rightarrow> string list" where
  "split_acc sep acc [] = [rev acc]"
| "split_acc sep acc (c # cs) =
     (if c = sep then rev acc # split_acc sep [] cs else split_acc sep (c # acc) cs)"

definition split :: "char \<Rightarrow> string \<Rightarrow> string list" where
  "split sep s = split_acc sep [] s"

text \<open>
  The list comprehension \<^verbatim>\<open>[float(x) for x in parts]\<close> (or \<^verbatim>\<open>int(x)\<close>): the builtin
  conversion is a parameter \<open>conv\<close>, with \<open>None\<close> where it raises \<^verbatim>\<open>ValueError\<close>. The
  comprehension raises at the first field that does not convert, and then yields no list.
\<close>

fun convert_all :: "(string \<Rightarrow> 'v option) \<Rightarrow> string list \<Rightarrow> 'v list option" where
  "convert_all conv [] = Some []"
| "convert_all conv (p # ps) =
     (case conv p of
        None \<Rightarrow> None
      | Some v \<Rightarrow> (case convert_all conv ps of None \<Rightarrow> None | Some vs \<Rightarrow> Some (v # vs)))"

text \<open>
  A conversion for evaluating concrete lines: a non-empty string of ASCII decimal digits
  converts to its value (as \<^verbatim>\<open>int\<close> and \<^verbatim>\<open>float\<close> both do), anything else is rejected
  here.
\<close>

definition is_digit :: "char \<Rightarrow> bool" where
  "is_digit c = (c \<in> set ''0123456789'')"

definition digits_conv :: "string \<Rightarrow> int option" where
  "digits_conv s =
     (if s \<noteq> [] \<and> list_all is_digit s
      then Some (foldl (\<lambda>a c. 10 * a + (int (of_char c) - 48)) 0 s)
      else None)"

text \<open>
  \<^verbatim>\<open>text.strip()\<close> removes the whitespace at both ends. A character of the text is a
  code point below 256; the whitespace among these is what \<^verbatim>\<open>str.isspace\<close> accepts there:
  tab, line feed, vertical tab, form feed, carriage return, the four separators 0x1C to 0x1F,
  space, next line (0x85) and no-break space (0xA0).
\<close>

definition is_space :: "char \<Rightarrow> bool" where
  "is_space c =
     (c \<in> set [CHR 0x09, CHR 0x0A, CHR 0x0B, CHR 0x0C, CHR 0x0D, CHR 0x1C, CHR 0x1D,
                CHR 0x1E, CHR 0x1F, CHR 0x20, CHR 0x85, CHR 0xA0])"

definition strip :: "string \<Rightarrow> string" where
  "strip s = rev (dropWhile is_space (rev (dropWhile is_space s)))"

text \<open>
  A decoder for evaluating concrete lines: bytes below 128 decode to themselves (as UTF-8
  does), anything else is rejected here; the byte 0xFF is rejected by UTF-8 as well.
\<close>

definition ascii_decode :: "string \<Rightarrow> string option" where
  "ascii_decode bs = (if list_all (\<lambda>c. of_char c < (128 :: nat)) bs then Some bs else None)"

subsection \<open>Rolling history channels\<close>

text \<open>
  The motion dashboard keeps each channel in a list and trims it by hand:
  \<^verbatim>\<open>ch.append(v); if len(ch) > self.data_points: ch.pop(0)\<close>.
\<close>

definition append_trim :: "nat \<Rightarrow> 'a list \<Rightarrow> 'a \<Rightarrow> 'a list" where
  "append_trim n xs v = (let ys = xs @ [v] in if length ys > n then tl ys else ys)"

text \<open>
  The ranging dashboard and the packet analyzer use \<^verbatim>\<open>collections.deque(maxlen=n)\<close>:
  \<^verbatim>\<open>append\<close> adds on the right and, when the length then exceeds \<open>maxlen\<close>, drops the
  leftmost element.
\<close>

record 'a deque =
  maxlen :: nat
  items :: "'a list"

definition deque_new :: "nat \<Rightarrow> 'a deque" where
  "deque_new n = \<lparr>maxlen = n, items = []\<rparr>"

definition deque_append :: "'a deque \<Rightarrow> 'a \<Rightarrow> 'a deque" where
  "deque_append q v =
     (let ys = items q @ [v]
      in q\<lparr>items := (if length ys > maxlen q then tl ys else ys)\<rparr>)"

definition deque_clear :: "'a deque \<Rightarrow> 'a deque" where
  "deque_clear q = q\<lparr>items := []\<rparr>"

text \<open>A snapshot is \<^verbatim>\<open>list(q)\<close>, the items oldest first.\<close>

definition snapshot :: "'a deque \<Rightarrow> 'a list" where
  "snapshot q = items q"

subsection \<open>Motion dashboard\<close>

text \<open>
  The dictionaries \<^verbatim>\<open>accel_data\<close>, \<^verbatim>\<open>gyro_data\<close> and \<^verbatim>\<open>orientation_data\<close> have fixed
  keys; each key is a field here. \<open>'v\<close> is the type of a converted reading.
\<close>

record 'v dashboard =
  data_points :: nat
  timestamps :: "'v list"
  accel_x :: "'v list"
  accel_y :: "'v list"
  accel_z :: "'v list"
  gyro_x :: "'v list"
  gyro_y :: "'v list"
  gyro_z :: "'v list"
  roll :: "'v list"
  pitch :: "'v list"
  temp_data :: "'v list"
  motion_data :: "'v list"
  recording :: bool
  running :: bool

definition initialize_data_storage :: "'v dashboard" where
  "initialize_data_storage =
     \<lparr>data_points = 100, timestamps = [],
      accel_x = [], accel_y = [], accel_z = [],
      gyro_x = [], gyro_y = [], gyro_z = [],
      roll = [], pitch = [], temp_data = [], motion_data = [],
      recording = False, running = False\<rparr>"

definition start_data_collection :: "'v dashboard \<Rightarrow> 'v dashboard" where
  "start_data_collection d = d\<lparr>running := True\<rparr>"

text \<open>
  What one pass of the loop meets at the serial port: nothing waiting, a line (the text
  after \<^verbatim>\<open>readline().decode().strip()\<close>), or an exception from the port or the decoder.
\<close>

datatype serial_event = NoData | Line string | ReadFailure

text \<open>
  The same one level lower: what the port holds, before
  \<^verbatim>\<open>readline().decode().strip()\<close>. The decoder is a parameter \<open>decode\<close>, with \<open>None\<close>
  where it raises \<^verbatim>\<open>UnicodeDecodeError\<close>.
\<close>

datatype port_event = NothingWaiting | RawLine string | PortError

definition read_line :: "(string \<Rightarrow> string option) \<Rightarrow> port_event \<Rightarrow> serial_event" where
  "read_line decode ev =
     (case ev of
        NothingWaiting \<Rightarrow> NoData
      | PortError \<Rightarrow> ReadFailure
      | RawLine bs \<Rightarrow>
          (case decode bs of
             None \<Rightarrow> ReadFailure
           | Some text \<Rightarrow> Line (strip text)))"

text \<open>What the loop prints, and the display update it schedules on the UI thread.\<close>

datatype 'v console =
    Received string
  | ParsedValues
  | AccelPrinted 'v 'v 'v
  | GyroPrinted 'v 'v 'v
  | UpdateDisplay "'v list"
  | ErrorUpdatingStorage py_error
  | ErrorInDataCollection py_error

text \<open>
  A run of statements \<^verbatim>\<open>ch.append(values[i]); trim\<close>, each reading one index of
  \<open>values\<close>: the first index out of range raises \<^verbatim>\<open>IndexError\<close> and keeps the updates
  made so far.
\<close>

fun store_steps ::
  "(nat \<times> ('v \<Rightarrow> 'd \<Rightarrow> 'd)) list \<Rightarrow> 'v list \<Rightarrow> 'd \<Rightarrow> 'd \<times> py_error option" where
  "store_steps [] vs d = (d, None)"
| "store_steps ((i, f) # ss) vs d =
     (if i < length vs then store_steps ss vs (f (vs ! i) d) else (d, Some IndexError))"

definition accel_steps :: "(nat \<times> ('v \<Rightarrow> 'v dashboard \<Rightarrow> 'v dashboard)) list" where
  "accel_steps =
     [(0, \<lambda>v d. d\<lparr>accel_x := append_trim (data_points d) (accel_x d) v\<rparr>),
      (1, \<lambda>v d. d\<lparr>accel_y := append_trim (data_points d) (accel_y d) v\<rparr>),
      (2, \<lambda>v d. d\<lparr>accel_z := append_trim (data_points d) (accel_z d) v\<rparr>)]"

definition gyro_steps :: "(nat \<times> ('v \<Rightarrow> 'v dashboard \<Rightarrow> 'v dashboard)) list" where
  "gyro_steps =
     [(3, \<lambda>v d. d\<lparr>gyro_x := append_trim (data_points d) (gyro_x d) v\<rparr>),
      (4, \<lambda>v d. d\<lparr>gyro_y := append_trim (data_points d) (gyro_y d) v\<rparr>),
      (5, \<lambda>v d. d\<lparr>gyro_z := append_trim (data_points d) (gyro_z d) v\<rparr>)]"

text \<open>
  One pass of the \<^verbatim>\<open>while self.running\<close> loop of \<^verbatim>\<open>collect_data\<close>. The two debug
  prints index \<open>values\<close> at 0..2 and 3..5 before anything is stored, so a short list
  raises there, in the outer \<^verbatim>\<open>try\<close>.
\<close>

definition collect_data_iteration ::
  "(string \<Rightarrow> 'v option) \<Rightarrow> 'v dashboard \<Rightarrow> serial_event \<Rightarrow> 'v dashboard \<times> 'v console list" where
  "collect_data_iteration conv d ev =
     (case ev of
        NoData \<Rightarrow> (d, [])
      | ReadFailure \<Rightarrow> (d, [ErrorInDataCollection IOError])
      | Line line \<Rightarrow>
          if startswith ''DATA:'' line then
            (case convert_all conv (split CHR '','' (drop 5 line)) of
               None \<Rightarrow> (d, [Received line, ErrorInDataCollection ValueError])
             | Some values \<Rightarrow>
                 if length values < 3 then
                   (d, [Received line, ParsedValues, ErrorInDataCollection IndexError])
                 else if length values < 6 then
                   (d, [Received line, ParsedValues,
                        AccelPrinted (values ! 0) (values ! 1) (values ! 2),
                        ErrorInDataCollection IndexError])
                 else
                   (case store_steps (accel_steps @ gyro_steps) values d of
                      (d', None) \<Rightarrow>
                        (d', [Received line, ParsedValues,
                              AccelPrinted (values ! 0) (values ! 1) (values ! 2),
                              GyroPrinted (values ! 3) (values ! 4) (values ! 5),
                              UpdateDisplay values])
                    | (d', Some e) \<Rightarrow>
                        (d', [Received line, ParsedValues,
                              AccelPrinted (values ! 0) (values ! 1) (values ! 2),
                              GyroPrinted (values ! 3) (values ! 4) (values ! 5),
                              ErrorUpdatingStorage e])))
          else (d, [Received line]))"

text \<open>The loop over the events the port delivers while the flag \<open>running\<close> is set.\<close>

fun collect_data ::
  "(string \<Rightarrow> 'v option) \<Rightarrow> 'v dashboard \<Rightarrow> serial_event list \<Rightarrow> 'v dashboard \<times> 'v console list" where
  "collect_data conv d [] = (d, [])"
| "collect_data conv d (ev # evs) =
     (if running d then
        (case collect_data_iteration conv d ev of
           (d', out) \<Rightarrow>
             (case collect_data conv d' evs of (d'', out') \<Rightarrow> (d'', out @ out')))
      else (d, []))"

text \<open>
  \<^verbatim>\<open>update_data_storage(timestamp, values)\<close>: the routine that also keeps timestamps and
  orientation. No other routine of the program calls it.
\<close>

definition orientation_steps :: "(nat \<times> ('v \<Rightarrow> 'v dashboard \<Rightarrow> 'v dashboard)) list" where
  "orientation_steps =
     [(6, \<lambda>v d. d\<lparr>roll := roll d @ [v]\<rparr>),
      (7, \<lambda>v d. d\<lparr>pitch := pitch d @ [v]\<rparr>)]"

definition update_data_storage ::
  "'v dashboard \<Rightarrow> 'v \<Rightarrow> 'v list \<Rightarrow> 'v dashboard \<times> py_error option" where
  "update_data_storage d timestamp values =
     (let d0 = d\<lparr>timestamps := append_trim (data_points d) (timestamps d) timestamp\<rparr>
      in case store_steps (accel_steps @ gyro_steps @ orientation_steps) values d0 of
           (d1, Some e) \<Rightarrow> (d1, Some e)
         | (d1, None) \<Rightarrow>
             (if length (roll d1) > data_points d1
              then (d1\<lparr>roll := tl (roll d1), pitch := tl (pitch d1)\<rparr>, None)
              else (d1, None)))"

definition reset_plots :: "'v dashboard \<Rightarrow> 'v dashboard" where
  "reset_plots d =
     d\<lparr>timestamps := [], accel_x := [], accel_y := [], accel_z := [],
       gyro_x := [], gyro_y := [], gyro_z := [],
       roll := [], pitch := [], temp_data := [], motion_data := []\<rparr>"

subsection \<open>Ranging dashboard\<close>

record sensor_gui =
  MAX_DISTANCE :: nat
  sensor_readings :: "int list"
  history_length :: nat
  sensor_histories :: "int deque list"

definition sensor_gui_init :: sensor_gui where
  "sensor_gui_init =
     \<lparr>MAX_DISTANCE = 400, sensor_readings = [0, 0, 0, 0], history_length = 100,
      sensor_histories = replicate 4 (deque_new 100)\<rparr>"

text \<open>\<^verbatim>\<open>show_error\<close> prints the message of the exception caught by \<^verbatim>\<open>update_gui\<close>.\<close>

datatype gui_message = UpdateError py_error

text \<open>
  \<^verbatim>\<open>for i, reading in enumerate(self.sensor_readings): self.sensor_histories[i].append(reading)\<close>
\<close>

fun append_histories ::
  "nat \<Rightarrow> int list \<Rightarrow> int deque list \<Rightarrow> int deque list \<times> py_error option" where
  "append_histories i [] hs = (hs, None)"
| "append_histories i (r # rs) hs =
     (if i < length hs
      then append_histories (Suc i) rs (hs[i := deque_append (hs ! i) r])
      else (hs, Some IndexError))"

text \<open>
  The data part of one tick of \<^verbatim>\<open>update_gui\<close>; the redrawing that follows it reads the
  state and is not modelled.
\<close>

definition update_gui ::
  "(string \<Rightarrow> int option) \<Rightarrow> sensor_gui \<Rightarrow> serial_event \<Rightarrow> sensor_gui \<times> gui_message list" where
  "update_gui conv g ev =
     (case ev of
        NoData \<Rightarrow> (g, [])
      | ReadFailure \<Rightarrow> (g, [UpdateError IOError])
      | Line line \<Rightarrow>
          if startswith ''DATA:'' line then
            (let data_parts = split CHR '','' (drop 5 line)
             in if length data_parts = 4 then
                  (case convert_all conv data_parts of
                     None \<Rightarrow> (g, [UpdateError ValueError])
                   | Some readings \<Rightarrow>
                       (let g1 = g\<lparr>sensor_readings := readings\<rparr>
                        in case append_histories 0 (sensor_readings g1) (sensor_histories g1) of
                             (hs, None) \<Rightarrow> (g1\<lparr>sensor_histories := hs\<rparr>, [])
                           | (hs, Some e) \<Rightarrow> (g1\<lparr>sensor_histories := hs\<rparr>, [UpdateError e])))
                else (g, []))
          else (g, []))"

definition reset_history :: "sensor_gui \<Rightarrow> sensor_gui" where
  "reset_history g = g\<lparr>sensor_histories := map deque_clear (sensor_histories g)\<rparr>"

text \<open>\<^verbatim>\<open>save_data\<close> writes the current readings to a file and changes nothing.\<close>

definition save_data :: "sensor_gui \<Rightarrow> sensor_gui" where
  "save_data g = g"

datatype gui_op = Tick serial_event | ResetHistory | SaveData

fun gui_step :: "(string \<Rightarrow> int option) \<Rightarrow> sensor_gui \<Rightarrow> gui_op \<Rightarrow> sensor_gui" where
  "gui_step conv g (Tick ev) = fst (update_gui conv g ev)"
| "gui_step conv g ResetHistory = reset_history g"
| "gui_step conv g SaveData = save_data g"

definition gui_run :: "(string \<Rightarrow> int option) \<Rightarrow> sensor_gui \<Rightarrow> gui_op list \<Rightarrow> sensor_gui" where
  "gui_run conv g ops = foldl (gui_step conv) g ops"

subsection \<open>Packet analyzer\<close>

record tcp_flags =
  flag_S :: bool
  flag_A :: bool
  flag_F :: bool
  flag_R :: bool

text \<open>
  A captured packet is a stack of protocol layers and has a length in bytes.
  \<^verbatim>\<open>IP in packet\<close> asks whether some layer is an IP header, \<^verbatim>\<open>packet[IP]\<close> is the first one.
\<close>

datatype layer =
    IP string string
  | TCP nat nat tcp_flags
  | UDP nat nat
  | OtherLayer

record packet =
  layers :: "layer list"
  wire_len :: nat

fun ip_layer :: "layer list \<Rightarrow> (string \<times> string) option" where
  "ip_layer [] = None"
| "ip_layer (IP src dst # ls) = Some (src, dst)"
| "ip_layer (l # ls) = ip_layer ls"

fun tcp_layer :: "layer list \<Rightarrow> (nat \<times> nat \<times> tcp_flags) option" where
  "tcp_layer [] = None"
| "tcp_layer (TCP sport dport fl # ls) = Some (sport, dport, fl)"
| "tcp_layer (l # ls) = tcp_layer ls"

fun udp_layer :: "layer list \<Rightarrow> (nat \<times> nat) option" where
  "udp_layer [] = None"
| "udp_layer (UDP sport dport # ls) = Some (sport, dport)"
| "udp_layer (l # ls) = udp_layer ls"

definition has_IP :: "packet \<Rightarrow> bool" where
  "has_IP p = (ip_layer (layers p) \<noteq> None)"

definition has_TCP :: "packet \<Rightarrow> bool" where
  "has_TCP p = (tcp_layer (layers p) \<noteq> None)"

definition has_UDP :: "packet \<Rightarrow> bool" where
  "has_UDP p = (udp_layer (layers p) \<noteq> None)"

text \<open>The pieces \<^verbatim>\<open>get_packet_info\<close> joins with \<^verbatim>\<open>" | "\<close>.\<close>

datatype info_item = PortInfo nat nat | FlagsInfo tcp_flags

definition get_packet_info :: "packet \<Rightarrow> info_item list" where
  "get_packet_info p =
     (case tcp_layer (layers p) of
        Some (sport, dport, fl) \<Rightarrow> [PortInfo sport dport, FlagsInfo fl]
      | None \<Rightarrow>
          (case udp_layer (layers p) of
             Some (sport, dport) \<Rightarrow> [PortInfo sport dport]
           | None \<Rightarrow> []))"

text \<open>A row of the packet list: timestamp, source, destination, protocol, length, info.\<close>

type_synonym packet_info = "string \<times> string \<times> string \<times> string \<times> nat \<times> info_item list"

record analyzer =
  packets :: "packet list"
  packet_times :: "string deque"
  packet_sizes :: "nat deque"
  protocol_counts :: "(string \<times> nat) list"
  capturing :: bool
  capture_threads :: nat
  packet_tree :: "packet_info list"
  analysis_text :: "string list"

definition analyzer_init :: analyzer where
  "analyzer_init =
     \<lparr>packets = [], packet_times = deque_new 100, packet_sizes = deque_new 100,
      protocol_counts = [(''TCP'', 0), (''UDP'', 0), (''Other'', 0)],
      capturing = False, capture_threads = 0, packet_tree = [], analysis_text = []\<rparr>"

text \<open>\<^verbatim>\<open>counts[proto] += 1\<close> on a dictionary kept as an association list.\<close>

fun increment :: "string \<Rightarrow> (string \<times> nat) list \<Rightarrow> (string \<times> nat) list" where
  "increment k [] = []"
| "increment k ((k', n) # kvs) =
     (if k = k' then (k', n + 1) # kvs else (k', n) # increment k kvs)"

text \<open>
  \<^verbatim>\<open>packet_callback\<close>, called for each captured packet; \<open>now\<close> is the formatted clock
  reading. The row is inserted into the packet list by the UI thread.
\<close>

definition packet_callback :: "analyzer \<Rightarrow> string \<times> packet \<Rightarrow> analyzer" where
  "packet_callback st ev =
     (case ev of (now, p) \<Rightarrow>
        (case ip_layer (layers p) of
           None \<Rightarrow> st
         | Some (src, dst) \<Rightarrow>
             (let proto = (if has_TCP p then ''TCP'' else if has_UDP p then ''UDP'' else ''Other'');
                  len = wire_len p;
                  info = get_packet_info p;
                  packet_info = (now, src, dst, proto, len, info)
              in st\<lparr>packets := packets st @ [p],
                    packet_sizes := deque_append (packet_sizes st) len,
                    protocol_counts := increment proto (protocol_counts st),
                    packet_tree := packet_tree st @ [packet_info]\<rparr>)))"


text \<open>
  \<^verbatim>\<open>start_capture\<close> starts a thread that runs \<^verbatim>\<open>sniff\<close>. The call passes no
  \<^verbatim>\<open>stop_filter\<close>, \<^verbatim>\<open>timeout\<close> or \<^verbatim>\<open>count\<close>, and \<^verbatim>\<open>packet_callback\<close> does not read the
  flag \<open>capturing\<close>: a capture thread, once started, keeps delivering packets.
  \<open>capture_threads\<close> is the number of capture threads started, all of them live.
\<close>

definition start_capture :: "analyzer \<Rightarrow> analyzer" where
  "start_capture st =
     (if \<not> capturing st
      then st\<lparr>capturing := True, capture_threads := Suc (capture_threads st),
              analysis_text := analysis_text st @ [''Packet capture started...'']\<rparr>
      else st)"

definition stop_capture :: "analyzer \<Rightarrow> analyzer" where
  "stop_capture st =
     st\<lparr>capturing := False,
        analysis_text := analysis_text st @ [''Packet capture stopped.'']\<rparr>"

definition clear_display :: "analyzer \<Rightarrow> analyzer" where
  "clear_display st =
     st\<lparr>packet_tree := [], analysis_text := [], packets := [],
        packet_sizes := deque_clear (packet_sizes st),
        protocol_counts := [(''TCP'', 0), (''UDP'', 0), (''Other'', 0)]\<rparr>"

text \<open>The dictionary built by \<^verbatim>\<open>packet_to_dict\<close>, keys in insertion order.\<close>

datatype jvalue =
    JStr string
  | JNum nat
  | JBool bool
  | JNone
  | JDict "(string \<times> jvalue) list"

definition packet_to_dict :: "string \<Rightarrow> packet \<Rightarrow> (string \<times> jvalue) list" where
  "packet_to_dict now p =
     [(''time'', JStr now),
      (''source_ip'', (case ip_layer (layers p) of Some (src, dst) \<Rightarrow> JStr src | None \<Rightarrow> JNone)),
      (''dest_ip'', (case ip_layer (layers p) of Some (src, dst) \<Rightarrow> JStr dst | None \<Rightarrow> JNone)),
      (''protocol'',
         JStr (if has_TCP p then ''TCP'' else if has_UDP p then ''UDP'' else ''Other'')),
      (''length'', JNum (wire_len p))]
     @ (case tcp_layer (layers p) of
          Some (sport, dport, fl) \<Rightarrow>
            [(''source_port'', JNum sport), (''dest_port'', JNum dport),
             (''tcp_flags'',
                JDict [(''SYN'', JBool (flag_S fl)), (''ACK'', JBool (flag_A fl)),
                       (''FIN'', JBool (flag_F fl)), (''RST'', JBool (flag_R fl))])]
        | None \<Rightarrow>
            (case udp_layer (layers p) of
               Some (sport, dport) \<Rightarrow> [(''source_port'', JNum sport), (''dest_port'', JNum dport)]
             | None \<Rightarrow> []))"

subsection \<open>Observations used in the statements\<close>

text \<open>The dashboard after the first six readings of \<open>vs\<close> went to the six live channels.\<close>

abbreviation six_pushed :: "'v dashboard \<Rightarrow> 'v list \<Rightarrow> 'v dashboard" where
  "six_pushed d vs \<equiv>
     d\<lparr>accel_x := append_trim (data_points d) (accel_x d) (vs ! 0),
       accel_y := append_trim (data_points d) (accel_y d) (vs ! 1),
       accel_z := append_trim (data_points d) (accel_z d) (vs ! 2),
       gyro_x := append_trim (data_points d) (gyro_x d) (vs ! 3),
       gyro_y := append_trim (data_points d) (gyro_y d) (vs ! 4),
       gyro_z := append_trim (data_points d) (gyro_z d) (vs ! 5)\<rparr>"

fun is_received :: "'v console \<Rightarrow> bool" where
  "is_received (Received l) = True"
| "is_received _ = False"

fun lines_of :: "serial_event list \<Rightarrow> string list" where
  "lines_of [] = []"
| "lines_of (Line l # evs) = l # lines_of evs"
| "lines_of (_ # evs) = lines_of evs"

definition row_proto :: "packet_info \<Rightarrow> string" where
  "row_proto r = (case r of (time, src, dst, proto, len, info) \<Rightarrow> proto)"

text \<open>
  The parser contract of the specification, \<open>Parse(raw) -> Record | skip | ParseError\<close>,
  written out for the two serial dashboards as a function of the line alone. It is compared
  below with what the loops do.
\<close>

datatype 'v parse_result = Record "'v list" | Skip | ParseError py_error

definition parse_motion :: "(string \<Rightarrow> 'v option) \<Rightarrow> string \<Rightarrow> 'v parse_result" where
  "parse_motion conv line =
     (if startswith ''DATA:'' line then
        (case convert_all conv (split CHR '','' (drop 5 line)) of
           None \<Rightarrow> ParseError ValueError
         | Some values \<Rightarrow> if length values < 6 then ParseError IndexError else Record values)
      else Skip)"

definition parse_ranging :: "(string \<Rightarrow> int option) \<Rightarrow> string \<Rightarrow> int parse_result" where
  "parse_ranging conv line =
     (if startswith ''DATA:'' line \<and> length (split CHR '','' (drop 5 line)) = 4 then
        (case convert_all conv (split CHR '','' (drop 5 line)) of
           None \<Rightarrow> ParseError ValueError
         | Some readings \<Rightarrow> Record readings)
      else Skip)"

section \<open>Properties\<close>

subsection \<open>Lines, fields and their handling\<close>

lemma convert_all_length: "convert_all conv ps = Some vs \<Longrightarrow> length vs = length ps"
  by (induction ps arbitrary: vs) (auto split: option.splits)

lemma store_six:
  assumes "6 \<le> length vs"
  shows "store_steps (accel_steps @ gyro_steps) vs d = (six_pushed d vs, None)"
proof -
  have "0 < length vs" "1 < length vs" "2 < length vs" "3 < length vs" "4 < length vs"
    "5 < length vs"
    using assms by auto
  then show ?thesis
    by (simp add: accel_steps_def gyro_steps_def)
qed

lemma iteration_not_data:
  "\<not> startswith ''DATA:'' l \<Longrightarrow> collect_data_iteration conv d (Line l) = (d, [Received l])"
  by (simp add: collect_data_iteration_def)

lemma iteration_value_error:
  "startswith ''DATA:'' l \<Longrightarrow> convert_all conv (split CHR '','' (drop 5 l)) = None \<Longrightarrow>
   collect_data_iteration conv d (Line l) = (d, [Received l, ErrorInDataCollection ValueError])"
  by (simp add: collect_data_iteration_def)

lemma iteration_short:
  "startswith ''DATA:'' l \<Longrightarrow> convert_all conv (split CHR '','' (drop 5 l)) = Some vs \<Longrightarrow>
   length vs < 6 \<Longrightarrow>
   fst (collect_data_iteration conv d (Line l)) = d \<and>
   last (snd (collect_data_iteration conv d (Line l))) = ErrorInDataCollection IndexError"
  by (simp add: collect_data_iteration_def)

lemma iteration_record:
  "startswith ''DATA:'' l \<Longrightarrow> convert_all conv (split CHR '','' (drop 5 l)) = Some vs \<Longrightarrow>
   6 \<le> length vs \<Longrightarrow>
   collect_data_iteration conv d (Line l) =
     (six_pushed d vs,
      [Received l, ParsedValues, AccelPrinted (vs ! 0) (vs ! 1) (vs ! 2),
       GyroPrinted (vs ! 3) (vs ! 4) (vs ! 5), UpdateDisplay vs])"
  by (simp add: collect_data_iteration_def store_six)

lemma update_gui_not_four:
  "length (split CHR '','' (drop 5 l)) \<noteq> 4 \<Longrightarrow> update_gui conv g (Line l) = (g, [])"
  by (simp add: update_gui_def Let_def)

lemma update_gui_not_data:
  "\<not> startswith ''DATA:'' l \<Longrightarrow> update_gui conv g (Line l) = (g, [])"
  by (simp add: update_gui_def)

text \<open>
  Claim C2, as amended. For a line that starts with \<^verbatim>\<open>DATA:\<close>: the ranging dashboard
  skips it without any error and without changing its state when the field count is not 4;
  the motion dashboard leaves its state unchanged and reports an error caught by the loop
  when there are fewer than 6 fields (\<^verbatim>\<open>ValueError\<close> when a field does not convert,
  \<^verbatim>\<open>IndexError\<close> otherwise); and when there are at least 6 fields that all convert,
  whatever their number, the motion dashboard accepts the line and pushes the first six
  values to the accelerometer and gyroscope channels.
\<close>

theorem field_count_mismatch_handling:
  assumes "startswith ''DATA:'' l"
  shows "(length (split CHR '','' (drop 5 l)) \<noteq> 4 \<longrightarrow> update_gui convi g (Line l) = (g, []))
    \<and> (length (split CHR '','' (drop 5 l)) < 6 \<longrightarrow>
         fst (collect_data_iteration conv d (Line l)) = d
         \<and> last (snd (collect_data_iteration conv d (Line l))) =
             ErrorInDataCollection
               (if convert_all conv (split CHR '','' (drop 5 l)) = None
                then ValueError else IndexError))
    \<and> (\<forall>vs. 6 \<le> length (split CHR '','' (drop 5 l))
           \<and> convert_all conv (split CHR '','' (drop 5 l)) = Some vs \<longrightarrow>
         collect_data_iteration conv d (Line l) =
           (six_pushed d vs,
            [Received l, ParsedValues, AccelPrinted (vs ! 0) (vs ! 1) (vs ! 2),
             GyroPrinted (vs ! 3) (vs ! 4) (vs ! 5), UpdateDisplay vs]))"
proof (intro conjI impI allI)
  assume "length (split CHR '','' (drop 5 l)) \<noteq> 4"
  then show "update_gui convi g (Line l) = (g, [])" by (rule update_gui_not_four)
next
  assume short: "length (split CHR '','' (drop 5 l)) < 6"
  show "fst (collect_data_iteration conv d (Line l)) = d"
  proof (cases "convert_all conv (split CHR '','' (drop 5 l))")
    case None
    then show ?thesis using assms by (simp add: iteration_value_error)
  next
    case (Some vs)
    then show ?thesis using assms short iteration_short [of l conv vs d]
      by (simp add: convert_all_length)
  qed
  show "last (snd (collect_data_iteration conv d (Line l))) =
          ErrorInDataCollection
            (if convert_all conv (split CHR '','' (drop 5 l)) = None
             then ValueError else IndexError)"
  proof (cases "convert_all conv (split CHR '','' (drop 5 l))")
    case None
    then show ?thesis using assms by (simp add: iteration_value_error)
  next
    case (Some vs)
    then show ?thesis using assms short iteration_short [of l conv vs d]
      by (simp add: convert_all_length)
  qed
next
  fix vs
  assume "6 \<le> length (split CHR '','' (drop 5 l))
           \<and> convert_all conv (split CHR '','' (drop 5 l)) = Some vs"
  then have conv: "convert_all conv (split CHR '','' (drop 5 l)) = Some vs"
    and len: "6 \<le> length vs"
    by (auto dest: convert_all_length)
  show "collect_data_iteration conv d (Line l) =
           (six_pushed d vs,
            [Received l, ParsedValues, AccelPrinted (vs ! 0) (vs ! 1) (vs ! 2),
             GyroPrinted (vs ! 3) (vs ! 4) (vs ! 5), UpdateDisplay vs])"
    by (rule iteration_record [OF assms conv len])
qed

lemma eval_split6: "split CHR '','' ''1,2,3,4,5,6'' = [''1'', ''2'', ''3'', ''4'', ''5'', ''6'']"
  by (simp add: split_def)

lemma eval_split2: "split CHR '','' ''1,2'' = [''1'', ''2'']"
  by (simp add: split_def)

lemma eval_digits:
  "digits_conv ''1'' = Some 1" "digits_conv ''2'' = Some 2" "digits_conv ''3'' = Some 3"
  "digits_conv ''4'' = Some 4" "digits_conv ''5'' = Some 5" "digits_conv ''6'' = Some 6"
  by (simp_all add: digits_conv_def is_digit_def)

text \<open>
  Claim C2 as stated fails: the motion dashboard accepts the six-field line
  \<^verbatim>\<open>DATA:1,2,3,4,5,6\<close> (six is not eight), stores it and reports no error; the ranging
  dashboard meets the two-field line \<^verbatim>\<open>DATA:1,2\<close> and reports no error at all.
\<close>

theorem field_count_mismatch_counterexample:
  "startswith ''DATA:'' ''DATA:1,2,3,4,5,6''
   \<and> length (split CHR '','' (drop 5 ''DATA:1,2,3,4,5,6'')) \<noteq> 8
   \<and> accel_x (initialize_data_storage :: int dashboard) = []
   \<and> accel_x (fst (collect_data_iteration digits_conv initialize_data_storage
                     (Line ''DATA:1,2,3,4,5,6''))) = [1]
   \<and> snd (collect_data_iteration digits_conv (initialize_data_storage :: int dashboard)
            (Line ''DATA:1,2,3,4,5,6'')) =
       [Received ''DATA:1,2,3,4,5,6'', ParsedValues, AccelPrinted 1 2 3, GyroPrinted 4 5 6,
        UpdateDisplay [1, 2, 3, 4, 5, 6]]
   \<and> startswith ''DATA:'' ''DATA:1,2''
   \<and> length (split CHR '','' (drop 5 ''DATA:1,2'')) \<noteq> 4
   \<and> update_gui digits_conv sensor_gui_init (Line ''DATA:1,2'') = (sensor_gui_init, [])"
  by (simp add: startswith_def eval_split6 eval_split2 eval_digits collect_data_iteration_def
      update_gui_def store_six append_trim_def initialize_data_storage_def)

theorem field_count_mismatch_handling_witness:
  "startswith ''DATA:'' ''DATA:1,2''
   \<and> length (split CHR '','' (drop 5 ''DATA:1,2'')) \<noteq> 4
   \<and> length (split CHR '','' (drop 5 ''DATA:1,2'')) < 6
   \<and> update_gui digits_conv sensor_gui_init (Line ''DATA:1,2'') = (sensor_gui_init, [])
   \<and> fst (collect_data_iteration digits_conv (initialize_data_storage :: int dashboard)
            (Line ''DATA:1,2'')) = initialize_data_storage"
  using field_count_mismatch_handling
    [of "''DATA:1,2''" digits_conv sensor_gui_init digits_conv "initialize_data_storage :: int dashboard"]
  by (simp add: startswith_def eval_split2)

lemma eval_read_ready:
  "read_line ascii_decode (RawLine (''MPU6050 ready'' @ [CHR 0x0A])) = Line ''MPU6050 ready''"
  by (simp add: read_line_def ascii_decode_def strip_def is_space_def)

lemma eval_read_four:
  "read_line ascii_decode (RawLine ('' DATA:7,8,9,10'' @ [CHR 0x0A])) = Line ''DATA:7,8,9,10''"
  by (simp add: read_line_def ascii_decode_def strip_def is_space_def)

lemma eval_read_six:
  "read_line ascii_decode (RawLine ('' DATA:1,2,3,4,5,6'' @ [CHR 0x0A]))
     = Line ''DATA:1,2,3,4,5,6''"
  by (simp add: read_line_def ascii_decode_def strip_def is_space_def)

lemma eval_read_undecodable: "read_line ascii_decode (RawLine [CHR 0xFF]) = ReadFailure"
  by (simp add: read_line_def ascii_decode_def)

lemma eval_split4: "split CHR '','' ''7,8,9,10'' = [''7'', ''8'', ''9'', ''10'']"
  by (simp add: split_def)

lemma eval_tick:
  "sensor_readings (fst (update_gui digits_conv sensor_gui_init (Line ''DATA:7,8,9,10'')))
     = [7, 8, 9, 10]"
  by (simp add: update_gui_def startswith_def eval_split4 digits_conv_def is_digit_def
      sensor_gui_init_def Let_def split: prod.splits)

text \<open>
  Claim C5, as amended. The prefix test is made on the text after decoding and stripping.
  A line that decodes and whose stripped text does not start with \<^verbatim>\<open>DATA:\<close> is skipped:
  both dashboards keep their whole state, no error is reported, and the motion dashboard
  only echoes the stripped text. A line that does not decode changes no state either, and
  the exception is caught and printed.
\<close>

theorem stripped_line_without_prefix_skipped:
  "(decode raw = Some t \<and> \<not> startswith ''DATA:'' (strip t) \<longrightarrow>
      collect_data_iteration conv d (read_line decode (RawLine raw))
        = (d, [Received (strip t)])
      \<and> update_gui convi g (read_line decode (RawLine raw)) = (g, []))
   \<and> (decode raw = None \<longrightarrow>
      collect_data_iteration conv d (read_line decode (RawLine raw))
        = (d, [ErrorInDataCollection IOError])
      \<and> update_gui convi g (read_line decode (RawLine raw)) = (g, [UpdateError IOError]))"
proof (intro conjI impI)
  assume a: "decode raw = Some t \<and> \<not> startswith ''DATA:'' (strip t)"
  then have r: "read_line decode (RawLine raw) = Line (strip t)"
    by (simp add: read_line_def)
  show "collect_data_iteration conv d (read_line decode (RawLine raw))
        = (d, [Received (strip t)])"
    using a unfolding r by (simp add: iteration_not_data)
  show "update_gui convi g (read_line decode (RawLine raw)) = (g, [])"
    using a unfolding r by (simp add: update_gui_not_data)
next
  assume "decode raw = None"
  then have r: "read_line decode (RawLine raw) = ReadFailure"
    by (simp add: read_line_def)
  show "collect_data_iteration conv d (read_line decode (RawLine raw))
        = (d, [ErrorInDataCollection IOError])"
    unfolding r by (simp add: collect_data_iteration_def)
  show "update_gui convi g (read_line decode (RawLine raw)) = (g, [UpdateError IOError])"
    unfolding r by (simp add: update_gui_def)
qed

text \<open>
  Claim C5 as stated fails. The serial line \<^verbatim>\<open>" DATA:7,8,9,10\n"\<close> does not begin with
  \<^verbatim>\<open>DATA:\<close>, yet the ranging dashboard takes its four readings; the line
  \<^verbatim>\<open>" DATA:1,2,3,4,5,6\n"\<close> likewise reaches the channels of the motion dashboard; and the
  undecodable line of the single byte 0xFF, which does not begin with \<^verbatim>\<open>DATA:\<close> either,
  makes the motion loop print an error.
\<close>

theorem raw_line_without_prefix_counterexample:
  "\<not> startswith ''DATA:'' ('' DATA:7,8,9,10'' @ [CHR 0x0A])
   \<and> sensor_readings sensor_gui_init = [0, 0, 0, 0]
   \<and> sensor_readings (fst (update_gui digits_conv sensor_gui_init
        (read_line ascii_decode (RawLine ('' DATA:7,8,9,10'' @ [CHR 0x0A]))))) = [7, 8, 9, 10]
   \<and> \<not> startswith ''DATA:'' ('' DATA:1,2,3,4,5,6'' @ [CHR 0x0A])
   \<and> accel_x (initialize_data_storage :: int dashboard) = []
   \<and> accel_x (fst (collect_data_iteration digits_conv initialize_data_storage
        (read_line ascii_decode (RawLine ('' DATA:1,2,3,4,5,6'' @ [CHR 0x0A]))))) = [1]
   \<and> \<not> startswith ''DATA:'' [CHR 0xFF]
   \<and> collect_data_iteration digits_conv (initialize_data_storage :: int dashboard)
        (read_line ascii_decode (RawLine [CHR 0xFF]))
       = (initialize_data_storage, [ErrorInDataCollection IOError])"
proof -
  have "sensor_readings sensor_gui_init = [0, 0, 0, 0]"
    by (simp add: sensor_gui_init_def)
  then show ?thesis
    unfolding eval_read_four eval_read_six eval_read_undecodable
    by (simp add: startswith_def eval_tick eval_split6 eval_digits collect_data_iteration_def
        store_six append_trim_def initialize_data_storage_def)
qed

theorem stripped_line_without_prefix_skipped_witness:
  "ascii_decode (''MPU6050 ready'' @ [CHR 0x0A]) = Some (''MPU6050 ready'' @ [CHR 0x0A])
   \<and> strip (''MPU6050 ready'' @ [CHR 0x0A]) = ''MPU6050 ready''
   \<and> \<not> startswith ''DATA:'' (strip (''MPU6050 ready'' @ [CHR 0x0A]))
   \<and> collect_data_iteration digits_conv (initialize_data_storage :: int dashboard)
        (read_line ascii_decode (RawLine (''MPU6050 ready'' @ [CHR 0x0A])))
       = (initialize_data_storage, [Received ''MPU6050 ready''])
   \<and> update_gui digits_conv sensor_gui_init
        (read_line ascii_decode (RawLine (''MPU6050 ready'' @ [CHR 0x0A])))
       = (sensor_gui_init, [])
   \<and> ascii_decode [CHR 0xFF] = None
   \<and> update_gui digits_conv sensor_gui_init (read_line ascii_decode (RawLine [CHR 0xFF]))
       = (sensor_gui_init, [UpdateError IOError])"
proof -
  have dec: "ascii_decode (''MPU6050 ready'' @ [CHR 0x0A]) = Some (''MPU6050 ready'' @ [CHR 0x0A])"
    by (simp add: ascii_decode_def)
  have st: "strip (''MPU6050 ready'' @ [CHR 0x0A]) = ''MPU6050 ready''"
    by (simp add: strip_def is_space_def)
  have pre: "\<not> startswith ''DATA:'' (strip (''MPU6050 ready'' @ [CHR 0x0A]))"
    unfolding st by (simp add: startswith_def)
  have und: "ascii_decode [CHR 0xFF] = None"
    by (simp add: ascii_decode_def)
  note skip = stripped_line_without_prefix_skipped
    [where decode = ascii_decode and raw = "''MPU6050 ready'' @ [CHR 0x0A]"
       and t = "''MPU6050 ready'' @ [CHR 0x0A]" and conv = digits_conv
       and d = "initialize_data_storage :: int dashboard" and convi = digits_conv
       and g = sensor_gui_init]
  note fail = stripped_line_without_prefix_skipped
    [where decode = ascii_decode and raw = "[CHR 0xFF]" and convi = digits_conv
       and g = sensor_gui_init]
  have "collect_data_iteration digits_conv (initialize_data_storage :: int dashboard)
        (read_line ascii_decode (RawLine (''MPU6050 ready'' @ [CHR 0x0A])))
       = (initialize_data_storage, [Received ''MPU6050 ready''])
   \<and> update_gui digits_conv sensor_gui_init
        (read_line ascii_decode (RawLine (''MPU6050 ready'' @ [CHR 0x0A])))
       = (sensor_gui_init, [])"
    using skip dec pre unfolding st by blast
  moreover have "update_gui digits_conv sensor_gui_init
        (read_line ascii_decode (RawLine [CHR 0xFF])) = (sensor_gui_init, [UpdateError IOError])"
    using fail und by blast
  ultimately show ?thesis
    using dec st pre und by blast
qed

subsection \<open>The acquisition loop of the motion dashboard\<close>

lemma iteration_line_cases:
  obtains (skip) "\<not> startswith ''DATA:'' l"
      "collect_data_iteration conv d (Line l) = (d, [Received l])"
    | (value_error) "startswith ''DATA:'' l"
      "convert_all conv (split CHR '','' (drop 5 l)) = None"
      "collect_data_iteration conv d (Line l) = (d, [Received l, ErrorInDataCollection ValueError])"
    | (index_error) vs where "startswith ''DATA:'' l"
      "convert_all conv (split CHR '','' (drop 5 l)) = Some vs" "length vs < 6"
      "fst (collect_data_iteration conv d (Line l)) = d"
      "snd (collect_data_iteration conv d (Line l)) =
         (if length vs < 3 then [Received l, ParsedValues, ErrorInDataCollection IndexError]
          else [Received l, ParsedValues, AccelPrinted (vs ! 0) (vs ! 1) (vs ! 2),
                ErrorInDataCollection IndexError])"
    | (stored) vs where "startswith ''DATA:'' l"
      "convert_all conv (split CHR '','' (drop 5 l)) = Some vs" "6 \<le> length vs"
      "collect_data_iteration conv d (Line l) =
         (six_pushed d vs,
          [Received l, ParsedValues, AccelPrinted (vs ! 0) (vs ! 1) (vs ! 2),
           GyroPrinted (vs ! 3) (vs ! 4) (vs ! 5), UpdateDisplay vs])"
proof (cases "startswith ''DATA:'' l")
  case False
  then show ?thesis using skip by (simp add: iteration_not_data)
next
  case sw: True
  show ?thesis
  proof (cases "convert_all conv (split CHR '','' (drop 5 l))")
    case None
    then show ?thesis using sw value_error by (simp add: iteration_value_error)
  next
    case (Some vs)
    show ?thesis
    proof (cases "length vs < 6")
      case True
      then show ?thesis using sw Some index_error [of vs]
        by (simp add: collect_data_iteration_def)
    next
      case False
      then show ?thesis using sw Some stored [of vs]
        by (simp add: iteration_record)
    qed
  qed
qed

lemma iteration_frame:
  "running (fst (collect_data_iteration conv d ev)) = running d
   \<and> data_points (fst (collect_data_iteration conv d ev)) = data_points d
   \<and> timestamps (fst (collect_data_iteration conv d ev)) = timestamps d
   \<and> roll (fst (collect_data_iteration conv d ev)) = roll d
   \<and> pitch (fst (collect_data_iteration conv d ev)) = pitch d
   \<and> temp_data (fst (collect_data_iteration conv d ev)) = temp_data d
   \<and> motion_data (fst (collect_data_iteration conv d ev)) = motion_data d"
proof (cases ev)
  case NoData
  then show ?thesis by (simp add: collect_data_iteration_def)
next
  case ReadFailure
  then show ?thesis by (simp add: collect_data_iteration_def)
next
  case (Line l)
  show ?thesis unfolding Line
    by (rule iteration_line_cases [of l conv d]) simp_all
qed

lemma iteration_error_state:
  "ErrorInDataCollection e \<in> set (snd (collect_data_iteration conv d ev)) \<Longrightarrow>
   fst (collect_data_iteration conv d ev) = d"
proof (cases ev)
  case NoData
  then show ?thesis by (simp add: collect_data_iteration_def)
next
  case ReadFailure
  then show ?thesis by (simp add: collect_data_iteration_def)
next
  case (Line l)
  assume err: "ErrorInDataCollection e \<in> set (snd (collect_data_iteration conv d ev))"
  from err show ?thesis unfolding Line
    by - (rule iteration_line_cases [of l conv d], simp_all)
qed

lemma iteration_received:
  "filter is_received (snd (collect_data_iteration conv d ev)) = map Received (lines_of [ev])"
proof (cases ev)
  case NoData
  then show ?thesis by (simp add: collect_data_iteration_def)
next
  case ReadFailure
  then show ?thesis by (simp add: collect_data_iteration_def)
next
  case (Line l)
  show ?thesis unfolding Line
    by (rule iteration_line_cases [of l conv d]) simp_all
qed

lemma collect_data_cons:
  "running d \<Longrightarrow>
   collect_data conv d (ev # evs) =
     (fst (collect_data conv (fst (collect_data_iteration conv d ev)) evs),
      snd (collect_data_iteration conv d ev)
        @ snd (collect_data conv (fst (collect_data_iteration conv d ev)) evs))"
  by (simp split: prod.splits)

lemma lines_of_cons: "lines_of (ev # evs) = lines_of [ev] @ lines_of evs"
  by (cases ev) simp_all

lemma collect_data_received:
  "running d \<Longrightarrow>
   filter is_received (snd (collect_data conv d evs)) = map Received (lines_of evs)"
proof (induction evs arbitrary: d)
  case Nil
  then show ?case by simp
next
  case (Cons ev evs)
  have "running (fst (collect_data_iteration conv d ev))"
    using Cons.prems by (simp add: iteration_frame)
  then have "filter is_received (snd (collect_data conv (fst (collect_data_iteration conv d ev)) evs))
      = map Received (lines_of evs)"
    by (rule Cons.IH)
  then show ?case
    using Cons.prems lines_of_cons [of ev evs]
    by (simp add: collect_data_cons iteration_received del: collect_data.simps lines_of.simps)
qed

lemma collect_data_frame:
  "timestamps (fst (collect_data conv d evs)) = timestamps d
   \<and> roll (fst (collect_data conv d evs)) = roll d
   \<and> pitch (fst (collect_data conv d evs)) = pitch d
   \<and> temp_data (fst (collect_data conv d evs)) = temp_data d
   \<and> motion_data (fst (collect_data conv d evs)) = motion_data d"
proof (induction evs arbitrary: d)
  case Nil
  then show ?case by simp
next
  case (Cons ev evs)
  show ?case
  proof (cases "running d")
    case True
    then show ?thesis
      using Cons.IH [of "fst (collect_data_iteration conv d ev)"] iteration_frame [of conv d ev]
      by (simp add: collect_data_cons del: collect_data.simps)
  next
    case False
    then show ?thesis by simp
  qed
qed

text \<open>
  Claim C6, as amended. When a pass of the loop reports an error for its unit, the dashboard
  state after the pass is the state before it (nothing counts the error), the error is in the
  console output of that pass, and the loop goes on with the remaining units from that same
  state: every later line is still received.
\<close>

theorem parse_error_is_logged_and_loop_continues:
  assumes "running d"
    and "ErrorInDataCollection e \<in> set (snd (collect_data_iteration conv d ev))"
  shows "fst (collect_data_iteration conv d ev) = d
    \<and> collect_data conv d (ev # evs) =
        (fst (collect_data conv d evs),
         snd (collect_data_iteration conv d ev) @ snd (collect_data conv d evs))
    \<and> filter is_received (snd (collect_data conv d (ev # evs)))
        = map Received (lines_of (ev # evs))"
proof -
  have same: "fst (collect_data_iteration conv d ev) = d"
    using assms(2) by (rule iteration_error_state)
  have "collect_data conv d (ev # evs) =
        (fst (collect_data conv d evs),
         snd (collect_data_iteration conv d ev) @ snd (collect_data conv d evs))"
    using collect_data_cons [OF assms(1), of conv ev evs] same by simp
  moreover have "filter is_received (snd (collect_data conv d (ev # evs)))
        = map Received (lines_of (ev # evs))"
    using assms(1) by (rule collect_data_received)
  ultimately show ?thesis using same by blast
qed

lemma d0_running: "running (start_data_collection initialize_data_storage)"
  by (simp add: start_data_collection_def initialize_data_storage_def)

lemma eval_short_line:
  "collect_data_iteration digits_conv d (Line ''DATA:1,2'') =
     (d, [Received ''DATA:1,2'', ParsedValues, ErrorInDataCollection IndexError])"
  by (simp add: collect_data_iteration_def startswith_def eval_split2 eval_digits)

text \<open>
  Claim C6 as stated fails: on the line \<^verbatim>\<open>DATA:1,2\<close> the pass reports an
  \<^verbatim>\<open>IndexError\<close> and returns the dashboard unchanged, so no quantity read from the
  dashboard has been incremented.
\<close>

theorem parse_error_counter_counterexample:
  "collect_data_iteration digits_conv (start_data_collection initialize_data_storage)
      (Line ''DATA:1,2'') =
     (start_data_collection initialize_data_storage,
      [Received ''DATA:1,2'', ParsedValues, ErrorInDataCollection IndexError])
   \<and> \<not> (\<exists>counter :: int dashboard \<Rightarrow> nat.
          counter (fst (collect_data_iteration digits_conv
             (start_data_collection initialize_data_storage) (Line ''DATA:1,2'')))
          = Suc (counter (start_data_collection initialize_data_storage)))"
  by (simp add: eval_short_line)

theorem parse_error_is_logged_and_loop_continues_witness:
  "running (start_data_collection (initialize_data_storage :: int dashboard))
   \<and> ErrorInDataCollection IndexError
       \<in> set (snd (collect_data_iteration digits_conv
                     (start_data_collection initialize_data_storage) (Line ''DATA:1,2'')))
   \<and> fst (collect_data_iteration digits_conv
            (start_data_collection (initialize_data_storage :: int dashboard))
            (Line ''DATA:1,2'')) = start_data_collection initialize_data_storage
   \<and> filter is_received
       (snd (collect_data digits_conv (start_data_collection initialize_data_storage)
               [Line ''DATA:1,2'', Line ''DATA:1,2,3,4,5,6'']))
     = [Received ''DATA:1,2'', Received ''DATA:1,2,3,4,5,6'']"
proof -
  let ?d = "start_data_collection (initialize_data_storage :: int dashboard)"
  have r: "running ?d" by (rule d0_running)
  have e: "ErrorInDataCollection IndexError
       \<in> set (snd (collect_data_iteration digits_conv ?d (Line ''DATA:1,2'')))"
    by (simp add: eval_short_line)
  note th = parse_error_is_logged_and_loop_continues [OF r e, of "[Line ''DATA:1,2,3,4,5,6'']"]
  have "filter is_received
       (snd (collect_data digits_conv ?d [Line ''DATA:1,2'', Line ''DATA:1,2,3,4,5,6'']))
     = [Received ''DATA:1,2'', Received ''DATA:1,2,3,4,5,6'']"
    using th [THEN conjunct2, THEN conjunct2] by (simp del: collect_data.simps)
  then show ?thesis using r e th [THEN conjunct1] by blast
qed

subsection \<open>Rolling history keeps the newest values\<close>

lemma append_trim_drop:
  "append_trim n (drop (length ys - n) ys) v = drop (Suc (length ys) - n) (ys @ [v])"
proof (cases "n \<le> length ys")
  case True
  define k where "k = length ys - n"
  have k: "k \<le> length ys" "Suc (length ys) - n = Suc k" "length (drop k ys) = n"
    using True by (simp_all add: k_def)
  have "append_trim n (drop k ys) v = tl (drop k ys @ [v])"
    using k(3) by (simp add: append_trim_def Let_def)
  also have "drop k ys @ [v] = drop k (ys @ [v])"
    using k(1) by simp
  also have "tl (drop k (ys @ [v])) = drop (Suc k) (ys @ [v])"
    by (simp only: drop_Suc drop_tl)
  finally show ?thesis
    using k(2) by (simp add: k_def)
next
  case False
  then show ?thesis
    by (simp add: append_trim_def Let_def)
qed

lemma foldl_append_trim:
  "length xs \<le> n \<Longrightarrow>
   foldl (append_trim n) xs vs = drop (length (xs @ vs) - n) (xs @ vs)"
proof (induction vs rule: rev_induct)
  case Nil
  then show ?case by simp
next
  case (snoc v vs)
  then have "foldl (append_trim n) xs (vs @ [v])
      = append_trim n (drop (length (xs @ vs) - n) (xs @ vs)) v"
    by simp
  also have "\<dots> = drop (Suc (length (xs @ vs)) - n) ((xs @ vs) @ [v])"
    by (rule append_trim_drop)
  finally show ?case by simp
qed

lemma foldl_deque_append:
  "items (foldl deque_append q vs) = foldl (append_trim (maxlen q)) (items q) vs
   \<and> maxlen (foldl deque_append q vs) = maxlen q"
  by (induction vs arbitrary: q) (simp_all add: deque_append_def append_trim_def Let_def)

text \<open>
  Claim C1. After more than \<open>C\<close> pushes into a history channel of capacity \<open>C\<close> that held
  at most \<open>C\<close> values, the channel holds exactly \<open>C\<close> values and they are the last \<open>C\<close>
  pushed ones, oldest first. This holds for the hand-trimmed lists of the motion dashboard
  and for the bounded deques of the other two programs.
\<close>

theorem ring_buffer_keeps_last:
  assumes "C < length vs"
  shows "(length xs \<le> C \<longrightarrow>
            foldl (append_trim C) xs vs = drop (length vs - C) vs
            \<and> length (foldl (append_trim C) xs vs) = C)
    \<and> (maxlen q = C \<and> length (snapshot q) \<le> C \<longrightarrow>
            snapshot (foldl deque_append q vs) = drop (length vs - C) vs
            \<and> length (snapshot (foldl deque_append q vs)) = C)"
  using assms by (auto simp: foldl_append_trim foldl_deque_append snapshot_def)

theorem ring_buffer_keeps_last_witness:
  "(2::nat) < length [10, 20, 30, 40 :: int]
   \<and> foldl (append_trim 2) [] [10, 20, 30, 40 :: int] = [30, 40]
   \<and> snapshot (foldl deque_append (deque_new 2) [10, 20, 30, 40 :: int]) = [30, 40]"
  using ring_buffer_keeps_last [of 2 "[10, 20, 30, 40 :: int]" "[]" "deque_new 2"]
  by (simp add: deque_new_def snapshot_def)

subsection \<open>Channels written by the live loop\<close>

text \<open>
  Claim C9. A pass of the loop on a well-formed eight-field \<^verbatim>\<open>DATA:\<close> line changes the
  dashboard only by appending the first six values to the accelerometer and gyroscope
  channels; and whatever the loop receives, the timestamps, roll, pitch, temperature and
  motion histories stay as they were.
\<close>

theorem acquisition_loop_writes_only_six_channels:
  "(startswith ''DATA:'' l \<and> convert_all conv (split CHR '','' (drop 5 l)) = Some vs
      \<and> length vs = 8 \<longrightarrow>
      fst (collect_data_iteration conv d (Line l)) = six_pushed d vs)
   \<and> timestamps (fst (collect_data conv d evs)) = timestamps d
   \<and> roll (fst (collect_data conv d evs)) = roll d
   \<and> pitch (fst (collect_data conv d evs)) = pitch d
   \<and> temp_data (fst (collect_data conv d evs)) = temp_data d
   \<and> motion_data (fst (collect_data conv d evs)) = motion_data d"
  using collect_data_frame [of conv d evs] by (simp add: iteration_record)

theorem acquisition_loop_writes_only_six_channels_witness:
  "startswith ''DATA:'' ''DATA:1,2,3,4,5,6,7,8''
   \<and> convert_all digits_conv (split CHR '','' (drop 5 ''DATA:1,2,3,4,5,6,7,8''))
       = Some [1, 2, 3, 4, 5, 6, 7, 8]
   \<and> length [1, 2, 3, 4, 5, 6, 7, 8 :: int] = 8
   \<and> fst (collect_data_iteration digits_conv initialize_data_storage
            (Line ''DATA:1,2,3,4,5,6,7,8''))
       = initialize_data_storage
           \<lparr>accel_x := [1], accel_y := [2], accel_z := [3],
            gyro_x := [4], gyro_y := [5], gyro_z := [6]\<rparr>"
proof -
  have sw: "startswith ''DATA:'' ''DATA:1,2,3,4,5,6,7,8''"
    by (simp add: startswith_def)
  have cv: "convert_all digits_conv (split CHR '','' (drop 5 ''DATA:1,2,3,4,5,6,7,8''))
       = Some [1, 2, 3, 4, 5, 6, 7, 8]"
    by (simp add: split_def digits_conv_def is_digit_def)
  note th = acquisition_loop_writes_only_six_channels
    [of "''DATA:1,2,3,4,5,6,7,8''" digits_conv "[1, 2, 3, 4, 5, 6, 7, 8]"
        "initialize_data_storage" "[]"]
  show ?thesis using sw cv th
    by (simp add: append_trim_def initialize_data_storage_def)
qed

subsection \<open>The parser as a function of the line\<close>

lemma iteration_short_out:
  "startswith ''DATA:'' l \<Longrightarrow> convert_all conv (split CHR '','' (drop 5 l)) = Some vs \<Longrightarrow>
   length vs < 6 \<Longrightarrow>
   collect_data_iteration conv d (Line l) =
     (d, if length vs < 3 then [Received l, ParsedValues, ErrorInDataCollection IndexError]
         else [Received l, ParsedValues, AccelPrinted (vs ! 0) (vs ! 1) (vs ! 2),
               ErrorInDataCollection IndexError])"
  by (simp add: collect_data_iteration_def)

lemma iteration_outputs_state_independent:
  "snd (collect_data_iteration conv d (Line l)) = snd (collect_data_iteration conv d' (Line l))"
proof (cases "startswith ''DATA:'' l")
  case False
  then show ?thesis by (simp add: iteration_not_data)
next
  case sw: True
  show ?thesis
  proof (cases "convert_all conv (split CHR '','' (drop 5 l))")
    case None
    then show ?thesis using sw by (simp add: iteration_value_error)
  next
    case (Some vs)
    show ?thesis
    proof (cases "length vs < 6")
      case True
      then show ?thesis using sw Some by (simp add: iteration_short_out)
    next
      case False
      then have "6 \<le> length vs" by simp
      then show ?thesis using sw Some by (simp add: iteration_record)
    qed
  qed
qed

lemma parse_motion_refines:
  "(case parse_motion conv l of
      Record vs \<Rightarrow>
        collect_data_iteration conv d (Line l) =
          (six_pushed d vs,
           [Received l, ParsedValues, AccelPrinted (vs ! 0) (vs ! 1) (vs ! 2),
            GyroPrinted (vs ! 3) (vs ! 4) (vs ! 5), UpdateDisplay vs])
    | Skip \<Rightarrow> collect_data_iteration conv d (Line l) = (d, [Received l])
    | ParseError e \<Rightarrow>
        fst (collect_data_iteration conv d (Line l)) = d
        \<and> last (snd (collect_data_iteration conv d (Line l))) = ErrorInDataCollection e)"
proof (cases "startswith ''DATA:'' l")
  case False
  then show ?thesis by (simp add: iteration_not_data parse_motion_def)
next
  case sw: True
  show ?thesis
  proof (cases "convert_all conv (split CHR '','' (drop 5 l))")
    case None
    then show ?thesis using sw by (simp add: iteration_value_error parse_motion_def)
  next
    case (Some vs)
    show ?thesis
    proof (cases "length vs < 6")
      case True
      then show ?thesis using sw Some by (simp add: iteration_short_out parse_motion_def)
    next
      case False
      then have "6 \<le> length vs" by simp
      then show ?thesis using sw Some False by (simp add: iteration_record parse_motion_def)
    qed
  qed
qed

lemma parse_ranging_refines:
  "(case parse_ranging convi l of
      Record rs \<Rightarrow>
        length rs = 4
        \<and> fst (update_gui convi g (Line l)) =
            g\<lparr>sensor_readings := rs,
              sensor_histories := fst (append_histories 0 rs (sensor_histories g))\<rparr>
        \<and> snd (update_gui convi g (Line l)) =
            (case snd (append_histories 0 rs (sensor_histories g)) of
               None \<Rightarrow> [] | Some e \<Rightarrow> [UpdateError e])
    | Skip \<Rightarrow> update_gui convi g (Line l) = (g, [])
    | ParseError e \<Rightarrow> update_gui convi g (Line l) = (g, [UpdateError e]))"
  by (auto simp: parse_ranging_def update_gui_def Let_def
      split: option.splits prod.splits dest: convert_all_length)

text \<open>
  Claim C8. What a pass does with a line is determined by the parse result of that line,
  which is one of record, skip and parse error and depends on nothing but the line: a record
  is stored, a skip and an error leave the state alone. The console output of the motion
  loop for a line is the same from any two states.
\<close>

theorem parser_is_pure_function_of_line:
  "(case parse_motion conv l of
      Record vs \<Rightarrow>
        collect_data_iteration conv d (Line l) =
          (six_pushed d vs,
           [Received l, ParsedValues, AccelPrinted (vs ! 0) (vs ! 1) (vs ! 2),
            GyroPrinted (vs ! 3) (vs ! 4) (vs ! 5), UpdateDisplay vs])
    | Skip \<Rightarrow> collect_data_iteration conv d (Line l) = (d, [Received l])
    | ParseError e \<Rightarrow>
        fst (collect_data_iteration conv d (Line l)) = d
        \<and> last (snd (collect_data_iteration conv d (Line l))) = ErrorInDataCollection e)
   \<and> (case parse_ranging convi l of
      Record rs \<Rightarrow>
        length rs = 4
        \<and> fst (update_gui convi g (Line l)) =
            g\<lparr>sensor_readings := rs,
              sensor_histories := fst (append_histories 0 rs (sensor_histories g))\<rparr>
        \<and> snd (update_gui convi g (Line l)) =
            (case snd (append_histories 0 rs (sensor_histories g)) of
               None \<Rightarrow> [] | Some e \<Rightarrow> [UpdateError e])
    | Skip \<Rightarrow> update_gui convi g (Line l) = (g, [])
    | ParseError e \<Rightarrow> update_gui convi g (Line l) = (g, [UpdateError e]))
   \<and> snd (collect_data_iteration conv d (Line l)) = snd (collect_data_iteration conv d' (Line l))"
  using parse_motion_refines [where conv = conv and l = l and d = d]
    parse_ranging_refines [where convi = convi and l = l and g = g]
    iteration_outputs_state_independent [where conv = conv and l = l and d = d and d' = d']
  by blast

theorem parser_is_pure_function_of_line_witness:
  "parse_motion digits_conv ''DATA:1,2'' = ParseError IndexError
   \<and> fst (collect_data_iteration digits_conv (initialize_data_storage :: int dashboard)
            (Line ''DATA:1,2'')) = initialize_data_storage
   \<and> parse_ranging digits_conv ''DATA:1,2'' = Skip
   \<and> update_gui digits_conv sensor_gui_init (Line ''DATA:1,2'') = (sensor_gui_init, [])"
proof -
  have m: "parse_motion digits_conv ''DATA:1,2'' = ParseError IndexError"
    by (simp add: parse_motion_def startswith_def eval_split2 eval_digits)
  have r: "parse_ranging digits_conv ''DATA:1,2'' = Skip"
    by (simp add: parse_ranging_def startswith_def eval_split2)
  note th = parser_is_pure_function_of_line
    [where conv = digits_conv and l = "''DATA:1,2''" and convi = digits_conv
       and d = "initialize_data_storage :: int dashboard" and g = sensor_gui_init
       and d' = "initialize_data_storage :: int dashboard"]
  show ?thesis using th m r by simp
qed

subsection \<open>Current readings of the ranging dashboard\<close>

lemma update_gui_readings_length:
  "length (sensor_readings g) = 4 \<Longrightarrow> length (sensor_readings (fst (update_gui conv g ev))) = 4"
  by (auto simp: update_gui_def Let_def
      split: serial_event.splits option.splits prod.splits dest: convert_all_length)

lemma gui_step_readings_length:
  "length (sensor_readings g) = 4 \<Longrightarrow> length (sensor_readings (gui_step conv g op)) = 4"
  by (cases op) (simp_all add: update_gui_readings_length reset_history_def save_data_def)

lemma foldl_gui_step_readings_length:
  "length (sensor_readings g) = 4 \<Longrightarrow>
   length (sensor_readings (foldl (gui_step conv) g ops)) = 4"
  by (induction ops arbitrary: g) (simp_all add: gui_step_readings_length)

lemma update_gui_readings_changed:
  "sensor_readings (fst (update_gui conv g ev)) \<noteq> sensor_readings g \<Longrightarrow>
   \<exists>l. ev = Line l \<and> startswith ''DATA:'' l \<and> length (split CHR '','' (drop 5 l)) = 4
     \<and> convert_all conv (split CHR '','' (drop 5 l))
         = Some (sensor_readings (fst (update_gui conv g ev)))"
  by (auto simp: update_gui_def Let_def
      split: serial_event.splits option.splits prod.splits if_splits)

text \<open>
  Claim C10. The current readings start with four entries, every operation of the ranging
  dashboard keeps them at four, so they have four entries after any run; and a tick changes
  them only on a \<^verbatim>\<open>DATA:\<close> line of exactly four fields that all convert.
\<close>

theorem sensor_readings_always_four:
  "length (sensor_readings sensor_gui_init) = 4
   \<and> (length (sensor_readings g) = 4 \<longrightarrow> length (sensor_readings (gui_step conv g op)) = 4)
   \<and> length (sensor_readings (gui_run conv sensor_gui_init ops)) = 4
   \<and> (sensor_readings (fst (update_gui conv g ev)) \<noteq> sensor_readings g \<longrightarrow>
        (\<exists>l. ev = Line l \<and> startswith ''DATA:'' l
           \<and> length (split CHR '','' (drop 5 l)) = 4
           \<and> convert_all conv (split CHR '','' (drop 5 l))
               = Some (sensor_readings (fst (update_gui conv g ev)))))"
proof -
  have init: "length (sensor_readings sensor_gui_init) = 4"
    by (simp add: sensor_gui_init_def)
  then have "length (sensor_readings (gui_run conv sensor_gui_init ops)) = 4"
    unfolding gui_run_def by (rule foldl_gui_step_readings_length)
  then show ?thesis
    using init gui_step_readings_length [of g conv op] update_gui_readings_changed [of conv g ev]
    by blast
qed

theorem sensor_readings_always_four_witness:
  "length (sensor_readings sensor_gui_init) = 4
   \<and> sensor_readings (gui_step digits_conv sensor_gui_init (Tick (Line ''DATA:7,8,9,10'')))
       = [7, 8, 9, 10]
   \<and> sensor_readings (fst (update_gui digits_conv sensor_gui_init (Line ''DATA:7,8,9,10'')))
       \<noteq> sensor_readings sensor_gui_init
   \<and> length (sensor_readings
         (gui_step digits_conv sensor_gui_init (Tick (Line ''DATA:7,8,9,10'')))) = 4
   \<and> length (split CHR '','' (drop 5 ''DATA:7,8,9,10'')) = 4"
  using sensor_readings_always_four
    [of sensor_gui_init digits_conv "Tick (Line ''DATA:7,8,9,10'')" "[]" "Line ''DATA:7,8,9,10''"]
  by (simp add: eval_tick eval_split4) (simp add: sensor_gui_init_def)

subsection \<open>What the packet analyzer retains\<close>

lemma packet_callback_packets:
  "packets (packet_callback st ev)
     = (if has_IP (snd ev) then packets st @ [snd ev] else packets st)"
  by (cases ev) (auto simp: packet_callback_def has_IP_def Let_def split: option.splits)










subsection \<open>Protocol tag\<close>

text \<open>
  Claim C4. For a packet with an IP header the tag shown in its row, counted in the protocol
  counters and exported by \<^verbatim>\<open>packet_to_dict\<close> is TCP if a TCP header is present, else UDP
  if a UDP header is present, else Other; without a TCP header the exported record has no
  \<^verbatim>\<open>tcp_flags\<close> entry and the row shows no flags, and a packet tagged Other exports the
  five base keys only.
\<close>

theorem protocol_tag_three_way:
  assumes "has_IP p"
  shows "row_proto (last (packet_tree (packet_callback st (now, p))))
        = (if has_TCP p then ''TCP'' else if has_UDP p then ''UDP'' else ''Other'')
    \<and> protocol_counts (packet_callback st (now, p))
        = increment (row_proto (last (packet_tree (packet_callback st (now, p)))))
            (protocol_counts st)
    \<and> map_of (packet_to_dict now p) ''protocol''
        = Some (JStr (row_proto (last (packet_tree (packet_callback st (now, p))))))
    \<and> (\<not> has_TCP p \<longrightarrow>
          map_of (packet_to_dict now p) ''tcp_flags'' = None
          \<and> (\<forall>fl. FlagsInfo fl \<notin> set (get_packet_info p)))
    \<and> (\<not> has_TCP p \<and> \<not> has_UDP p \<longrightarrow>
          get_packet_info p = []
          \<and> map fst (packet_to_dict now p)
              = [''time'', ''source_ip'', ''dest_ip'', ''protocol'', ''length''])"
  using assms
  unfolding has_IP_def has_TCP_def has_UDP_def packet_callback_def packet_to_dict_def
    get_packet_info_def row_proto_def Let_def
  by (auto split: option.splits)

theorem protocol_tag_three_way_witness:
  "has_IP \<lparr>layers = [IP ''10.0.0.1'' ''10.0.0.2''], wire_len = 20\<rparr>
   \<and> \<not> has_TCP \<lparr>layers = [IP ''10.0.0.1'' ''10.0.0.2''], wire_len = 20\<rparr>
   \<and> \<not> has_UDP \<lparr>layers = [IP ''10.0.0.1'' ''10.0.0.2''], wire_len = 20\<rparr>
   \<and> row_proto (last (packet_tree (packet_callback analyzer_init
         (''12:00:00'', \<lparr>layers = [IP ''10.0.0.1'' ''10.0.0.2''], wire_len = 20\<rparr>))))
       = ''Other''
   \<and> map_of (packet_to_dict ''12:00:00''
         \<lparr>layers = [IP ''10.0.0.1'' ''10.0.0.2''], wire_len = 20\<rparr>) ''tcp_flags'' = None"
  using protocol_tag_three_way
    [of "\<lparr>layers = [IP ''10.0.0.1'' ''10.0.0.2''], wire_len = 20\<rparr>" analyzer_init
        "''12:00:00''"]
  by (simp add: has_IP_def has_TCP_def has_UDP_def)

subsection \<open>Start and stop of the capture\<close>

lemma start_capture_while_capturing: "capturing st \<Longrightarrow> start_capture st = st"
  by (simp add: start_capture_def)

lemma stop_capture_changes_idle_state: "stop_capture analyzer_init \<noteq> analyzer_init"
proof -
  have "analysis_text (stop_capture analyzer_init) \<noteq> analysis_text analyzer_init"
    by (simp add: stop_capture_def analyzer_init_def)
  then show ?thesis by auto
qed

text \<open>
  Claim C7 does not hold of the code. After Start and Stop the flag is clear while the
  capture thread still delivers packets, which are still stored; a further Start then
  starts a second capture thread beside the first. And Stop on the idle initial analyzer
  changes the state: unlike Start it has no guard, and it appends its status line.
\<close>

theorem start_after_stop_spawns_second_capture:
  "capturing (start_capture analyzer_init)
   \<and> capture_threads (start_capture analyzer_init) = 1
   \<and> \<not> capturing (stop_capture (start_capture analyzer_init))
   \<and> capture_threads (stop_capture (start_capture analyzer_init)) = 1
   \<and> packets (packet_callback (stop_capture (start_capture analyzer_init))
        (''12:00:00'', \<lparr>layers = [IP ''10.0.0.1'' ''10.0.0.2''], wire_len = 20\<rparr>))
       = [\<lparr>layers = [IP ''10.0.0.1'' ''10.0.0.2''], wire_len = 20\<rparr>]
   \<and> capture_threads (start_capture (stop_capture (start_capture analyzer_init))) = 2
   \<and> \<not> capturing analyzer_init
   \<and> stop_capture analyzer_init \<noteq> analyzer_init"
  using stop_capture_changes_idle_state
  by (simp add: start_capture_def stop_capture_def analyzer_init_def packet_callback_packets
      has_IP_def)

end
